theory Spec2Isabelle
  imports Complex_Main "HOL-Library.Log_Nat"
begin

section \<open>Numbers of the language\<close>

text \<open>
  A number of the program is an IEEE 754 double. A finite double is modelled by its
  value, a rational number; \<open>double_of q\<close> is the double nearest to \<open>q\<close>, ties
  going to the even significand, with 53 bits of significand and subnormals below
  \<open>2\<^sup>-\<^sup>1\<^sup>0\<^sup>2\<^sup>2\<close>. It does not overflow: a caller that can reach \<open>2\<^sup>1\<^sup>0\<^sup>2\<^sup>4\<close> uses
  \<open>to_number\<close> below.
\<close>

definition pow2 :: "int \<Rightarrow> rat" where
  "pow2 e = (if 0 \<le> e then 2 ^ nat e else 1 / 2 ^ nat (- e))"

text \<open>
  The binary exponent of a rational other than zero: the \<open>e\<close> with
  \<open>2\<^sup>e \<le> \<bar>q\<bar> < 2\<^sup>e\<^sup>+\<^sup>1\<close>, found from the bit lengths of numerator and denominator.
\<close>

definition exponent_of :: "rat \<Rightarrow> int" where
  "exponent_of q =
     (let (a, b) = quotient_of \<bar>q\<bar>;
          d = bitlen a - bitlen b
      in if pow2 d \<le> \<bar>q\<bar> then d else d - 1)"

definition roundHalfEven :: "rat \<Rightarrow> int" where
  "roundHalfEven m =
     (let f = \<lfloor>m\<rfloor>; r = m - of_int f
      in if r < 1 / 2 then f else if 1 / 2 < r then f + 1 else if even f then f else f + 1)"

definition double_of :: "rat \<Rightarrow> rat" where
  "double_of q =
     (if q = 0 then 0
      else (let e = max (exponent_of q) (- 1022); ulp = pow2 (e - 52)
            in of_int (roundHalfEven (q / ulp)) * ulp))"

text \<open>
  \<open>a / b\<close> and \<open>a * b\<close> on finite doubles, for a divisor other than zero and a
  result below the overflow threshold: the exact result, rounded.
\<close>

definition js_div :: "rat \<Rightarrow> rat \<Rightarrow> rat" where
  "js_div a b = double_of (a / b)"

definition js_mul :: "rat \<Rightarrow> rat \<Rightarrow> rat" where
  "js_mul a b = double_of (a * b)"

text \<open>
  A number where the handlers can meet any of them: \<open>NaN\<close>, a finite double other
  than negative zero, negative zero, or an infinity.
\<close>

datatype number = NaN | Num rat | NegZero | PosInfinity | NegInfinity

text \<open>The number for a real value other than zero: rounded, infinite from \<open>2\<^sup>1\<^sup>0\<^sup>2\<^sup>4\<close> on.\<close>

definition to_number :: "rat \<Rightarrow> number" where
  "to_number q =
     (let d = double_of q
      in if d \<noteq> 0 \<and> 1024 \<le> exponent_of d
         then (if 0 < q then PosInfinity else NegInfinity) else Num d)"

section \<open>The meal builder (the MealBuilder component)\<close>

subsection \<open>Data\<close>

text \<open>
  Modelled from the spec: the declaration of \<open>MenuItem\<close> in \<open>@/types\<close> is missing
  from the sources. A menu item carries the fields the specification lists; the
  component reads \<open>id\<close>, \<open>item_type\<close>, \<open>name\<close> and \<open>price\<close>. The field
  \<open>id\<close> is called \<open>id_of\<close> here, since \<open>id\<close> is the identity function of HOL.
\<close>

record MenuItem =
  id_of :: int
  item_type :: string
  name :: string
  price :: rat
  premium :: bool

text \<open>
  Modelled from the spec: the declaration of \<open>MealInProgress\<close> in \<open>@/types\<close> is
  missing from the sources. A meal in progress has two side slots and three entree
  slots, the five the component reads; an empty slot is \<open>null\<close> in the program and
  \<open>None\<close> here.
\<close>

record MealInProgress =
  side1 :: "MenuItem option"
  side2 :: "MenuItem option"
  entree1 :: "MenuItem option"
  entree2 :: "MenuItem option"
  entree3 :: "MenuItem option"

text \<open>
  A size is a string at run time, and \<open>getMealRequirements\<close> has a \<open>default\<close>
  branch for any string that is not one of the three literals, so the size is a
  \<open>string\<close> in the functions below.
\<close>

text \<open>
  Modelled from the spec: the declaration of \<open>SizeEnum\<close> in \<open>@/types\<close> is missing
  from the sources; the specification gives the sizes as bowl, plate and bigger plate.
\<close>

definition SizeEnum :: "string set" where
  "SizeEnum = {''bowl'', ''plate'', ''bigger plate''}"

record requirements =
  sides :: nat
  entrees :: nat

subsection \<open>The functions of the component\<close>

definition getMealRequirements :: "string \<Rightarrow> requirements" where
  "getMealRequirements sz =
     (if sz = ''bowl'' then \<lparr>sides = 1, entrees = 1\<rparr>
      else if sz = ''plate'' then \<lparr>sides = 1, entrees = 2\<rparr>
      else if sz = ''bigger plate'' then \<lparr>sides = 2, entrees = 3\<rparr>
      else \<lparr>sides = 1, entrees = 1\<rparr>)"

text \<open>
  \<open>if (meal.side1) filled++\<close>: a slot is truthy exactly when it holds an item.
\<close>

definition incr_if :: "bool \<Rightarrow> nat \<Rightarrow> nat" where
  "incr_if c filled = (if c then filled + 1 else filled)"

text \<open>
  \<open>return (filled / total) * 100\<close>, in the double arithmetic of the program.
  \<open>total\<close> is 2, 3 or 5, never zero.
\<close>

definition getProgress :: "string \<Rightarrow> MealInProgress \<Rightarrow> rat" where
  "getProgress sz meal =
     (let requirements = getMealRequirements sz;
          filled = 0;
          total = sides requirements + entrees requirements;
          filled = (if sides requirements = 1
                    then incr_if (side1 meal \<noteq> None) filled
                    else incr_if (side2 meal \<noteq> None) (incr_if (side1 meal \<noteq> None) filled));
          filled = incr_if (entree1 meal \<noteq> None) filled;
          filled = incr_if (entrees requirements \<ge> 2 \<and> entree2 meal \<noteq> None) filled;
          filled = incr_if (entrees requirements \<ge> 3 \<and> entree3 meal \<noteq> None) filled
      in js_mul (js_div (of_nat filled) (of_nat total)) 100)"

text \<open>
  \<open>slot !== null && slot.id !== item.id\<close>, the test both predicates below repeat for
  every slot they look at.
\<close>

definition isSideDisabled :: "string \<Rightarrow> MealInProgress \<Rightarrow> MenuItem \<Rightarrow> bool" where
  "isSideDisabled sz meal item =
     (let requirements = getMealRequirements sz in
      if sides requirements = 1 then
        (case side1 meal of None \<Rightarrow> False | Some s1 \<Rightarrow> id_of s1 \<noteq> id_of item)
      else
        (case (side1 meal, side2 meal) of
           (Some s1, Some s2) \<Rightarrow> id_of s1 \<noteq> id_of item \<and> id_of s2 \<noteq> id_of item
         | _ \<Rightarrow> False))"

definition isEntreeDisabled :: "string \<Rightarrow> MealInProgress \<Rightarrow> MenuItem \<Rightarrow> bool" where
  "isEntreeDisabled sz meal item =
     (if sz = ''bowl'' then
        (case entree1 meal of None \<Rightarrow> False | Some e1 \<Rightarrow> id_of e1 \<noteq> id_of item)
      else if sz = ''plate'' then
        (case (entree1 meal, entree2 meal) of
           (Some e1, Some e2) \<Rightarrow> id_of e1 \<noteq> id_of item \<and> id_of e2 \<noteq> id_of item
         | _ \<Rightarrow> False)
      else
        (case (entree1 meal, entree2 meal, entree3 meal) of
           (Some e1, Some e2, Some e3) \<Rightarrow>
              id_of e1 \<noteq> id_of item \<and> id_of e2 \<noteq> id_of item \<and> id_of e3 \<noteq> id_of item
         | _ \<Rightarrow> False))"

subsection \<open>What the component renders\<close>

text \<open>
  The component renders one button for each menu item whose \<open>item_type\<close> is
  \<open>side\<close>, with \<open>disabled={isSideDisabled(item)}\<close>, one for each item whose
  \<open>item_type\<close> is \<open>entree\<close>, with \<open>disabled={isEntreeDisabled(item)}\<close>, and no
  button for any other item. \<open>itemButtonDisabled\<close> is the \<open>disabled\<close> attribute of
  an item's button, when the item has one.
\<close>

definition sideButtons :: "string \<Rightarrow> MealInProgress \<Rightarrow> MenuItem list \<Rightarrow> (MenuItem \<times> bool) list" where
  "sideButtons sz meal menuItems =
     map (\<lambda>item. (item, isSideDisabled sz meal item))
         (filter (\<lambda>item. item_type item = ''side'') menuItems)"

definition entreeButtons :: "string \<Rightarrow> MealInProgress \<Rightarrow> MenuItem list \<Rightarrow> (MenuItem \<times> bool) list" where
  "entreeButtons sz meal menuItems =
     map (\<lambda>item. (item, isEntreeDisabled sz meal item))
         (filter (\<lambda>item. item_type item = ''entree'') menuItems)"

definition itemButtonDisabled :: "string \<Rightarrow> MealInProgress \<Rightarrow> MenuItem \<Rightarrow> bool option" where
  "itemButtonDisabled sz meal item =
     (if item_type item = ''side'' then Some (isSideDisabled sz meal item)
      else if item_type item = ''entree'' then Some (isEntreeDisabled sz meal item)
      else None)"


subsection \<open>The words of the specification\<close>

text \<open>
  The slots a size requires: the first \<open>sides\<close> side slots and the first \<open>entrees\<close>
  entree slots, in the fixed order in which they fill.
\<close>

definition required_side_slots :: "string \<Rightarrow> MealInProgress \<Rightarrow> MenuItem option list" where
  "required_side_slots sz meal =
     take (sides (getMealRequirements sz)) [side1 meal, side2 meal]"

definition required_entree_slots :: "string \<Rightarrow> MealInProgress \<Rightarrow> MenuItem option list" where
  "required_entree_slots sz meal =
     take (entrees (getMealRequirements sz)) [entree1 meal, entree2 meal, entree3 meal]"

definition required_slots :: "string \<Rightarrow> MealInProgress \<Rightarrow> MenuItem option list" where
  "required_slots sz meal = required_side_slots sz meal @ required_entree_slots sz meal"

definition filled_count :: "MenuItem option list \<Rightarrow> nat" where
  "filled_count slots = length (filter (\<lambda>slot. slot \<noteq> None) slots)"

definition all_filled :: "MenuItem option list \<Rightarrow> bool" where
  "all_filled slots = list_all (\<lambda>slot. slot \<noteq> None) slots"

text \<open>An item occupies one of the slots when a slot holds an item with its id.\<close>

definition occupies :: "MenuItem \<Rightarrow> MenuItem option list \<Rightarrow> bool" where
  "occupies item slots = list_ex (\<lambda>slot. map_option id_of slot = Some (id_of item)) slots"


text \<open>
  The requirement rule in the words of the specification, apart from the code: a bowl
  needs one side and one entree, a plate one side and two entrees, a bigger plate two
  sides and three entrees. The specification names no other size.
\<close>

definition spec_requirements :: "string \<Rightarrow> (nat \<times> nat) option" where
  "spec_requirements sz =
     (if sz = ''bowl'' then Some (1, 1)
      else if sz = ''plate'' then Some (1, 2)
      else if sz = ''bigger plate'' then Some (2, 3)
      else None)"

text \<open>
  The number of filled slots among the first \<open>s\<close> side slots and the first \<open>e\<close>
  entree slots of a meal.
\<close>

definition spec_filled :: "nat \<Rightarrow> nat \<Rightarrow> MealInProgress \<Rightarrow> nat" where
  "spec_filled s e meal =
     filled_count (take s [side1 meal, side2 meal] @
                   take e [entree1 meal, entree2 meal, entree3 meal])"

text \<open>\<open>k / n \<times> 100\<close> as the program's arithmetic evaluates it.\<close>

definition progress_value :: "nat \<Rightarrow> nat \<Rightarrow> rat" where
  "progress_value k n = js_mul (js_div (of_nat k) (of_nat n)) 100"

section \<open>The API route handlers\<close>

subsection \<open>Values of the language\<close>

text \<open>
  A parsed JSON document. \<open>JSON.parse\<close> keeps the last value of a repeated key, so
  a property of an object is looked up from the end of its member list. A number is the
  value of the double that was read; a negative zero in the document is not told apart
  from zero.
\<close>

datatype json =
    JNull
  | JBool bool
  | JNum rat
  | JStr string
  | JArr "json list"
  | JObj "(string \<times> json) list"

text \<open>A value that may be \<open>undefined\<close>: \<open>None\<close> is \<open>undefined\<close>.\<close>

type_synonym jsval = "json option"

text \<open>
  \<open>property v k\<close> is \<open>v.k\<close> for a value \<open>v\<close> other than \<open>null\<close> and a key
  \<open>k\<close> among those the handlers read (\<open>id\<close>, \<open>name\<close>, \<open>price\<close>,
  \<open>customerName\<close> and so on): an object has the property when a member has that
  key; numbers, booleans, strings and arrays have none of these properties.
\<close>

definition property :: "json \<Rightarrow> string \<Rightarrow> jsval" where
  "property v k = (case v of JObj members \<Rightarrow> map_of (rev members) k | _ \<Rightarrow> None)"

text \<open>
  The properties of the object that \<open>JSON.parse\<close> builds from a member list, in the
  order in which the object enumerates them: every key once, with its last value, the
  keys that are array indices first, in ascending order, and then the other keys in the
  order of their first occurrence.
\<close>

definition array_index :: "string \<Rightarrow> int option" where
  "array_index k =
     (let n = foldl (\<lambda>acc c. acc * 10 + (of_char c - 48)) (0 :: int) k
      in if k \<noteq> [] \<and> list_all (\<lambda>c. 48 \<le> (of_char c :: int) \<and> (of_char c :: int) \<le> 57) k \<and>
            (k = ''0'' \<or> hd k \<noteq> CHR ''0'') \<and> n < 4294967295
         then Some n else None)"

definition object_members :: "(string \<times> json) list \<Rightarrow> (string \<times> json) list" where
  "object_members members =
     (let keys = rev (remdups (rev (map fst members)));
          indices = sort_key (\<lambda>k. case array_index k of Some n \<Rightarrow> n | None \<Rightarrow> 0)
                      (filter (\<lambda>k. array_index k \<noteq> None) keys);
          names = filter (\<lambda>k. array_index k = None) keys
      in concat (map (\<lambda>k. case map_of (rev members) k of Some v \<Rightarrow> [(k, v)] | None \<Rightarrow> [])
                     (indices @ names)))"

text \<open>
  The object the rest pattern \<open>{ id, ingredents, ...updates }\<close> leaves: the properties
  whose key is not listed. The handler reads \<open>updates\<close> only after it has found
  \<open>id\<close> truthy, which only an object allows.
\<close>

definition rest_props :: "json \<Rightarrow> string list \<Rightarrow> json" where
  "rest_props v ks =
     (case v of
        JObj members \<Rightarrow> JObj (filter (\<lambda>member. fst member \<notin> set ks) (object_members members))
      | _ \<Rightarrow> JObj [])"

text \<open>
  Truthiness, as \<open>!v\<close> and \<open>v || w\<close> test it: \<open>undefined\<close>, \<open>null\<close>,
  \<open>false\<close>, zero and the empty string are falsy.
\<close>

definition truthy :: "jsval \<Rightarrow> bool" where
  "truthy v =
     (case v of
        None \<Rightarrow> False
      | Some JNull \<Rightarrow> False
      | Some (JBool b) \<Rightarrow> b
      | Some (JNum q) \<Rightarrow> q \<noteq> 0
      | Some (JStr s) \<Rightarrow> s \<noteq> []
      | Some (JArr _) \<Rightarrow> True
      | Some (JObj _) \<Rightarrow> True)"

text \<open>A destructuring default, \<open>{ items = 0 }\<close>: used when the property is \<open>undefined\<close>.\<close>

definition default_to :: "jsval \<Rightarrow> json \<Rightarrow> jsval" where
  "default_to v d = (case v of None \<Rightarrow> Some d | Some x \<Rightarrow> Some x)"

text \<open>An error object: what a \<open>catch\<close> clause receives.\<close>

datatype js_error = TypeError | SyntaxError | DataLayerError string

subsection \<open>Number\<close>

text \<open>
  \<open>Number(v)\<close> turns an object or an array into a primitive value first, and that
  step throws a \<open>TypeError\<close> when no callable \<open>valueOf\<close> or \<open>toString\<close> yields
  one. A parsed JSON value holds no function, so an object with a member named
  \<open>toString\<close> has no callable \<open>toString\<close>, and its inherited \<open>valueOf\<close> returns
  the object itself: the conversion throws. An object without such a member becomes
  \<open>[object Object]\<close>. An array is joined from the strings of its elements, and the
  string of an element throws in the same cases.
\<close>

fun toPrimitive_throws :: "json \<Rightarrow> bool" where
  "toPrimitive_throws (JObj members) = (''toString'' \<in> set (map fst members))"
| "toPrimitive_throws (JArr elements) = (\<exists>x \<in> set elements. toPrimitive_throws x)"
| "toPrimitive_throws _ = False"

text \<open>
  The value of \<open>Number(v)\<close>: \<open>NaN\<close> for \<open>undefined\<close> and for an object, 0 for
  \<open>null\<close>, 0 or 1 for a boolean, the number itself. For a string and for an array the
  value is read from text by the numeric grammar of the language; the handlers pass it
  on unread, and it is the parameter \<open>numericValue\<close>.
\<close>

definition Number_js :: "(json \<Rightarrow> number) \<Rightarrow> jsval \<Rightarrow> js_error + number" where
  "Number_js numericValue v =
     (case v of
        None \<Rightarrow> Inr NaN
      | Some j \<Rightarrow>
          if toPrimitive_throws j then Inl TypeError
          else Inr (case j of
                      JNull \<Rightarrow> Num 0
                    | JBool b \<Rightarrow> Num (if b then 1 else 0)
                    | JNum q \<Rightarrow> Num q
                    | JObj _ \<Rightarrow> NaN
                    | _ \<Rightarrow> numericValue j))"

subsection \<open>parseInt\<close>

text \<open>
  \<open>parseInt(string)\<close> with no radix, after the language definition: leading white
  space and line terminators are skipped, a sign is read, the prefix \<open>0x\<close> or \<open>0X\<close>
  selects radix 16, the longest run of digits of the radix is the value, \<open>NaN\<close> is
  the result when that run is empty, and the value is rounded to a double otherwise.
  A string is the list of the bytes of its UTF-8 encoding, so a white space character
  is one, two or three bytes long.
\<close>

definition whiteSpaceLength :: "string \<Rightarrow> nat" where
  "whiteSpaceLength s =
     (let bs = map (of_char :: char \<Rightarrow> nat) (take 3 s)
      in if take 1 bs \<in> set [[0x09], [0x0A], [0x0B], [0x0C], [0x0D], [0x20]] then 1
         else if take 2 bs = [0xC2, 0xA0] then 2
         else if bs \<in> set [[0xE1, 0x9A, 0x80], [0xE2, 0x80, 0xA8], [0xE2, 0x80, 0xA9],
                             [0xE2, 0x80, 0xAF], [0xE2, 0x81, 0x9F], [0xE3, 0x80, 0x80],
                             [0xEF, 0xBB, 0xBF]]
                 \<or> (take 2 bs = [0xE2, 0x80] \<and> length bs = 3 \<and> 0x80 \<le> bs ! 2 \<and> bs ! 2 \<le> 0x8A)
              then 3
         else 0)"

fun trimStart_steps :: "nat \<Rightarrow> string \<Rightarrow> string" where
  "trimStart_steps 0 s = s"
| "trimStart_steps (Suc n) s =
     (if whiteSpaceLength s = 0 then s
      else trimStart_steps n (drop (whiteSpaceLength s) s))"

text \<open>Every step removes at least one byte, so \<open>length s\<close> steps remove all of it.\<close>

definition trimStart :: "string \<Rightarrow> string" where
  "trimStart s = trimStart_steps (length s) s"

definition digitValue :: "char \<Rightarrow> nat option" where
  "digitValue c =
     (let n = (of_char c :: nat) in
      if 48 \<le> n \<and> n \<le> 57 then Some (n - 48)
      else if 97 \<le> n \<and> n \<le> 122 then Some (n - 87)
      else if 65 \<le> n \<and> n \<le> 90 then Some (n - 55)
      else None)"

definition isRadixDigit :: "nat \<Rightarrow> char \<Rightarrow> bool" where
  "isRadixDigit R c = (case digitValue c of None \<Rightarrow> False | Some d \<Rightarrow> d < R)"

definition digitsValue :: "nat \<Rightarrow> string \<Rightarrow> int" where
  "digitsValue R ds =
     foldl (\<lambda>acc c. case digitValue c of None \<Rightarrow> acc | Some d \<Rightarrow> acc * int R + int d) 0 ds"

text \<open>
  For more than 20 significant decimal digits the language lets an implementation
  replace the digits after the 20th by zeros; the model keeps them.
\<close>

definition parseInt :: "string \<Rightarrow> number" where
  "parseInt inputString =
     (let S = trimStart inputString;
          sign = (if S \<noteq> [] \<and> hd S = CHR ''-'' then - 1 else (1 :: int));
          S = (if S \<noteq> [] \<and> (hd S = CHR ''+'' \<or> hd S = CHR ''-'') then tl S else S);
          hex = (take 2 S = ''0x'' \<or> take 2 S = ''0X'');
          R = (if hex then 16 else 10);
          S = (if hex then drop 2 S else S);
          Z = takeWhile (isRadixDigit R) S
      in if Z = [] then NaN
         else (let mathInt = digitsValue R Z
               in if mathInt = 0 then (if sign = - 1 then NegZero else Num 0)
                  else to_number (of_int (sign * mathInt))))"

subsection \<open>Requests, responses and effects\<close>

text \<open>
  A request, as far as the handlers read it: the query parameters of its URL, in order
  (\<open>searchParams.get\<close> returns the first value of a name, or \<open>null\<close>), and the
  outcome of \<open>await request.json()\<close>, which throws when the body is not JSON.
\<close>

record Request =
  searchParams :: "(string \<times> string) list"
  json_result :: "js_error + json"

definition searchParams_get :: "Request \<Rightarrow> string \<Rightarrow> string option" where
  "searchParams_get request k = map_of (searchParams request) k"

text \<open>
  The object handed to \<open>NextResponse.json\<close>: a value the data layer returned, or one
  of the literals \<open>{ error }\<close>, \<open>{ error, details }\<close> and \<open>{ message }\<close>.
\<close>

datatype 'r body =
    Data 'r
  | DataList "'r list"
  | ErrorBody string "js_error option"
  | MessageBody string

record 'r NextResponse =
  body :: "'r body"
  status :: nat

text \<open>\<open>NextResponse.json(body, { status })\<close>; the status is 200 when none is given.\<close>

definition NextResponse_json :: "'r body \<Rightarrow> nat \<Rightarrow> 'r NextResponse" where
  "NextResponse_json b st = \<lparr>body = b, status = st\<rparr>"

text \<open>The argument of \<open>addTransaction\<close>.\<close>

record NewTransaction =
  customerName :: jsval
  cashierName :: jsval
  salePrice :: number
  items :: jsval
  meals :: jsval
  appetizers :: jsval
  drinks :: jsval

text \<open>What a handler does besides answering: calls of the data layer and console output.\<close>

datatype call =
    GetAllMenuItems
  | GetMenuItemById number
  | AddMenuItem jsval jsval jsval jsval jsval
  | UpdateMenuItem jsval json jsval
  | DeleteMenuItem number
  | GetTransactions
  | GetTransactionDetails number
  | AddTransaction NewTransaction

datatype effect = Called call | ConsoleError string js_error

text \<open>
  The data layer (\<open>@/lib/menu\<close>, \<open>@/lib/transactions\<close>) is not among the sources,
  and it talks to a database. Each of its functions is a parameter of the handlers: a
  call throws (\<open>Inl\<close>) or returns (\<open>Inr\<close>), and a lookup returns a record or
  \<open>null\<close> (\<open>None\<close>), as the sibling \<open>getInventoryById\<close> does. \<open>'r\<close> is the type
  of the records.
\<close>

record 'r menu_lib =
  getAllMenuItems :: "js_error + 'r list"
  getMenuItemById :: "number \<Rightarrow> js_error + 'r option"
  addMenuItem :: "jsval \<Rightarrow> jsval \<Rightarrow> jsval \<Rightarrow> jsval \<Rightarrow> jsval \<Rightarrow> js_error + 'r"
  updateMenuItem :: "jsval \<Rightarrow> json \<Rightarrow> jsval \<Rightarrow> js_error + 'r option"
  deleteMenuItem :: "number \<Rightarrow> js_error + unit"

record 'r transactions_lib =
  getTransactions :: "js_error + 'r list"
  getTransactionDetails :: "number \<Rightarrow> js_error + 'r option"
  addTransaction :: "NewTransaction \<Rightarrow> js_error + 'r"

text \<open>
  \<open>try { ... } catch (error) { console.error(msg, error); return onError(error) }\<close>:
  the block either returns a response or throws, and has had its effects by then.
\<close>

type_synonym 'r attempt = "(js_error + 'r NextResponse) \<times> effect list"

definition catching ::
  "string \<Rightarrow> (js_error \<Rightarrow> 'r NextResponse) \<Rightarrow> 'r attempt \<Rightarrow> 'r NextResponse \<times> effect list" where
  "catching msg onError attempt =
     (case attempt of
        (Inr response, effects) \<Rightarrow> (response, effects)
      | (Inl error, effects) \<Rightarrow> (onError error, effects @ [ConsoleError msg error]))"

subsection \<open>The handlers of /api/menu\<close>

text \<open>
  In each handler, the local variables that would clash with a field name of the
  records above carry a prime.
\<close>

definition menu_GET_try :: "'r menu_lib \<Rightarrow> string option \<Rightarrow> 'r attempt" where
  "menu_GET_try lib id_param =
     (let listAll =
            (case getAllMenuItems lib of
               Inl error \<Rightarrow> (Inl error, [Called GetAllMenuItems])
             | Inr menuItems \<Rightarrow>
                 (Inr (NextResponse_json (DataList menuItems) 200), [Called GetAllMenuItems]))
      in case id_param of
           None \<Rightarrow> listAll
         | Some s \<Rightarrow>
             if s = [] then listAll
             else
               (case getMenuItemById lib (parseInt s) of
                  Inl error \<Rightarrow> (Inl error, [Called (GetMenuItemById (parseInt s))])
                | Inr None \<Rightarrow>
                    (Inr (NextResponse_json (ErrorBody ''Menu item not found.'' None) 404),
                     [Called (GetMenuItemById (parseInt s))])
                | Inr (Some menuItem) \<Rightarrow>
                    (Inr (NextResponse_json (Data menuItem) 200),
                     [Called (GetMenuItemById (parseInt s))])))"

definition menu_GET :: "'r menu_lib \<Rightarrow> Request \<Rightarrow> 'r NextResponse \<times> effect list" where
  "menu_GET lib request =
     (let id_param = searchParams_get request ''id'' in
      catching ''Error fetching menu items:''
        (\<lambda>error. NextResponse_json (ErrorBody ''Failed to fetch menu items.'' None) 500)
        (menu_GET_try lib id_param))"

definition menu_POST_try :: "'r menu_lib \<Rightarrow> Request \<Rightarrow> 'r attempt" where
  "menu_POST_try lib request =
     (case json_result request of
        Inl error \<Rightarrow> (Inl error, [])
      | Inr b \<Rightarrow>
          if b = JNull then (Inl TypeError, [])
          else
            (let item_type' = property b ''item_type'';
                 name' = property b ''name'';
                 price' = property b ''price'';
                 premium' = property b ''premium'';
                 ingredients = default_to (property b ''ingredients'') (JArr [])
             in if \<not> truthy item_type' \<or> \<not> truthy name' \<or> price' = None \<or> premium' = None
                then (Inr (NextResponse_json
                             (ErrorBody ''Invalid input. All fields are required.'' None) 400), [])
                else
                  (case addMenuItem lib item_type' name' price' premium' ingredients of
                     Inl error \<Rightarrow>
                       (Inl error, [Called (AddMenuItem item_type' name' price' premium' ingredients)])
                   | Inr newItem \<Rightarrow>
                       (Inr (NextResponse_json (Data newItem) 201),
                        [Called (AddMenuItem item_type' name' price' premium' ingredients)]))))"

definition menu_POST :: "'r menu_lib \<Rightarrow> Request \<Rightarrow> 'r NextResponse \<times> effect list" where
  "menu_POST lib request =
     catching ''Error adding menu item:''
       (\<lambda>error. NextResponse_json (ErrorBody ''Failed to add menu item.'' None) 500)
       (menu_POST_try lib request)"

definition menu_PUT_try :: "'r menu_lib \<Rightarrow> Request \<Rightarrow> 'r attempt" where
  "menu_PUT_try lib request =
     (case json_result request of
        Inl error \<Rightarrow> (Inl error, [])
      | Inr b \<Rightarrow>
          if b = JNull then (Inl TypeError, [])
          else
            (let id' = property b ''id'';
                 updates = rest_props b [''id'', ''ingredents'']
             in if \<not> truthy id'
                then (Inr (NextResponse_json
                             (ErrorBody ''ID is required to update the menu item.'' None) 400), [])
                else
                  (let ingredients =
                         (if truthy (property updates ''ingredients'')
                          then property updates ''ingredients'' else Some (JArr []))
                   in case updateMenuItem lib id' updates ingredients of
                        Inl error \<Rightarrow> (Inl error, [Called (UpdateMenuItem id' updates ingredients)])
                      | Inr None \<Rightarrow>
                          (Inr (NextResponse_json (ErrorBody ''Menu item not found.'' None) 404),
                           [Called (UpdateMenuItem id' updates ingredients)])
                      | Inr (Some updatedItem) \<Rightarrow>
                          (Inr (NextResponse_json (Data updatedItem) 200),
                           [Called (UpdateMenuItem id' updates ingredients)]))))"

definition menu_PUT :: "'r menu_lib \<Rightarrow> Request \<Rightarrow> 'r NextResponse \<times> effect list" where
  "menu_PUT lib request =
     catching ''Error updating menu item:''
       (\<lambda>error. NextResponse_json (ErrorBody ''Failed to update menu item.'' None) 500)
       (menu_PUT_try lib request)"

text \<open>
  \<open>DELETE\<close> tests the id before its \<open>try\<close> block: \<open>!id || isNaN(parseInt(id))\<close>.
\<close>

definition menu_DELETE_try :: "'r menu_lib \<Rightarrow> string \<Rightarrow> 'r attempt" where
  "menu_DELETE_try lib s =
     (case deleteMenuItem lib (parseInt s) of
        Inl error \<Rightarrow> (Inl error, [Called (DeleteMenuItem (parseInt s))])
      | Inr _ \<Rightarrow>
          (Inr (NextResponse_json (MessageBody ''Menu item deleted successfully.'') 200),
           [Called (DeleteMenuItem (parseInt s))]))"

definition menu_DELETE :: "'r menu_lib \<Rightarrow> Request \<Rightarrow> 'r NextResponse \<times> effect list" where
  "menu_DELETE lib request =
     (let id_param = searchParams_get request ''id'';
          invalid = (NextResponse_json (ErrorBody ''Invalid or missing menu item ID.'' None) 400, [])
      in case id_param of
           None \<Rightarrow> invalid
         | Some s \<Rightarrow>
             if s = [] \<or> parseInt s = NaN then invalid
             else
               catching ''Error deleting menu item:''
                 (\<lambda>error. NextResponse_json (ErrorBody ''Failed to delete menu item.'' None) 500)
                 (menu_DELETE_try lib s))"

subsection \<open>The handlers of /api/transactions\<close>

definition transactions_GET_try :: "'r transactions_lib \<Rightarrow> string option \<Rightarrow> 'r attempt" where
  "transactions_GET_try lib id_param =
     (let listAll =
            (case getTransactions lib of
               Inl error \<Rightarrow> (Inl error, [Called GetTransactions])
             | Inr transactions \<Rightarrow>
                 (Inr (NextResponse_json (DataList transactions) 200), [Called GetTransactions]))
      in case id_param of
           None \<Rightarrow> listAll
         | Some s \<Rightarrow>
             if s = [] then listAll
             else
               (case getTransactionDetails lib (parseInt s) of
                  Inl error \<Rightarrow> (Inl error, [Called (GetTransactionDetails (parseInt s))])
                | Inr None \<Rightarrow>
                    (Inr (NextResponse_json (ErrorBody ''Transaction not found'' None) 404),
                     [Called (GetTransactionDetails (parseInt s))])
                | Inr (Some transaction) \<Rightarrow>
                    (Inr (NextResponse_json (Data transaction) 200),
                     [Called (GetTransactionDetails (parseInt s))])))"

definition transactions_GET ::
  "'r transactions_lib \<Rightarrow> Request \<Rightarrow> 'r NextResponse \<times> effect list" where
  "transactions_GET lib request =
     catching ''Error in transactions GET route:''
       (\<lambda>error. NextResponse_json (ErrorBody ''Failed to fetch transactions'' (Some error)) 500)
       (transactions_GET_try lib (searchParams_get request ''id''))"

text \<open>
  The argument of \<open>addTransaction\<close> is built before the call, so a
  \<open>Number(salePrice)\<close> that throws leaves the \<open>try\<close> block with no call made.
\<close>

definition transactions_POST_try ::
  "(json \<Rightarrow> number) \<Rightarrow> 'r transactions_lib \<Rightarrow> Request \<Rightarrow> 'r attempt" where
  "transactions_POST_try numericValue lib request =
     (case json_result request of
        Inl error \<Rightarrow> (Inl error, [])
      | Inr b \<Rightarrow>
          if b = JNull then (Inl TypeError, [])
          else
            (let customerName' = property b ''customerName'';
                 cashierName' = property b ''cashierName'';
                 salePrice' = property b ''salePrice'';
                 items' = default_to (property b ''items'') (JNum 0);
                 meals' = default_to (property b ''meals'') (JNum 0);
                 appetizers' = default_to (property b ''appetizers'') (JNum 0);
                 drinks' = default_to (property b ''drinks'') (JNum 0)
             in if \<not> truthy customerName' \<or> \<not> truthy cashierName' \<or> salePrice' = None
                then (Inr (NextResponse_json (ErrorBody ''Missing required fields'' None) 400), [])
                else
                  (case Number_js numericValue salePrice' of
                     Inl error \<Rightarrow> (Inl error, [])
                   | Inr price_number \<Rightarrow>
                       (let arg = \<lparr>customerName = customerName',
                                   cashierName = cashierName',
                                   salePrice = price_number,
                                   items = items',
                                   meals = meals',
                                   appetizers = appetizers',
                                   drinks = drinks'\<rparr>
                        in case addTransaction lib arg of
                             Inl error \<Rightarrow> (Inl error, [Called (AddTransaction arg)])
                           | Inr newTransaction \<Rightarrow>
                               (Inr (NextResponse_json (Data newTransaction) 200),
                                [Called (AddTransaction arg)])))))"

definition transactions_POST ::
  "(json \<Rightarrow> number) \<Rightarrow> 'r transactions_lib \<Rightarrow> Request \<Rightarrow> 'r NextResponse \<times> effect list" where
  "transactions_POST numericValue lib request =
     catching ''Error in transactions POST route:''
       (\<lambda>error. NextResponse_json (ErrorBody ''Failed to create transaction'' (Some error)) 500)
       (transactions_POST_try numericValue lib request)"

subsection \<open>The words of the specification, for the handlers\<close>

text \<open>A JSON body containing an \<open>error\<close> field, a \<open>message\<close> field.\<close>

definition has_error_field :: "'r body \<Rightarrow> bool" where
  "has_error_field b = (case b of ErrorBody _ _ \<Rightarrow> True | _ \<Rightarrow> False)"

definition has_message_field :: "'r body \<Rightarrow> bool" where
  "has_message_field b = (case b of MessageBody _ \<Rightarrow> True | _ \<Rightarrow> False)"

text \<open>The body embeds the error object \<open>e\<close>: it is \<open>{ error, details: e }\<close>.\<close>

definition embeds :: "js_error \<Rightarrow> 'r body \<Rightarrow> bool" where
  "embeds e b = (case b of ErrorBody _ details \<Rightarrow> details = Some e | _ \<Rightarrow> False)"

text \<open>The calls of the data layer among the effects of a handler.\<close>

definition calls :: "effect list \<Rightarrow> call list" where
  "calls effects = concat (map (\<lambda>e. case e of Called c \<Rightarrow> [c] | _ \<Rightarrow> []) effects)"

text \<open>
  A field is missing from a body when reading it gives \<open>undefined\<close>. A body is valid
  for a handler when the handler's validation accepts it: no required field is missing
  and the fields the handler tests for truthiness are truthy.
\<close>

definition missing :: "json \<Rightarrow> string \<Rightarrow> bool" where
  "missing b k = (property b k = None)"


definition responds_500 :: "'r NextResponse \<Rightarrow> bool" where
  "responds_500 response = (status response = 500 \<and> has_error_field (body response))"

definition valid_transaction_body :: "json \<Rightarrow> bool" where
  "valid_transaction_body b =
     (b \<noteq> JNull \<and> truthy (property b ''customerName'') \<and> truthy (property b ''cashierName'') \<and>
      \<not> missing b ''salePrice'')"

section \<open>Example data\<close>

text \<open>Concrete items, meals, requests and data layers, at which the properties below are evaluated.\<close>

definition item_a :: MenuItem where
  "item_a = \<lparr>id_of = 1, item_type = ''side'', name = ''Chow Mein'', price = 4, premium = False\<rparr>"

definition item_b :: MenuItem where
  "item_b = \<lparr>id_of = 2, item_type = ''entree'', name = ''Orange Chicken'', price = 5, premium = False\<rparr>"

definition item_c :: MenuItem where
  "item_c = \<lparr>id_of = 3, item_type = ''entree'', name = ''Beijing Beef'', price = 5, premium = False\<rparr>"

definition meal1 :: MealInProgress where
  "meal1 = \<lparr>side1 = Some item_a, side2 = None, entree1 = Some item_b, entree2 = None, entree3 = None\<rparr>"

definition refused :: js_error where
  "refused = DataLayerError ''connection refused''"

definition demo_menu_lib :: "MenuItem menu_lib" where
  "demo_menu_lib =
     \<lparr>getAllMenuItems = Inr [item_a, item_b],
      getMenuItemById = (\<lambda>n. if n = Num 1 then Inr (Some item_a)
                              else if n = Num 2 then Inr (Some item_b) else Inr None),
      addMenuItem = (\<lambda>t n p pr ing. Inr item_a),
      updateMenuItem = (\<lambda>i u ing. if i = Some (JNum 1) then Inr (Some item_a) else Inr None),
      deleteMenuItem = (\<lambda>n. Inr ())\<rparr>"

definition failing_menu_lib :: "MenuItem menu_lib" where
  "failing_menu_lib =
     \<lparr>getAllMenuItems = Inl refused,
      getMenuItemById = (\<lambda>n. Inl refused),
      addMenuItem = (\<lambda>t n p pr ing. Inl refused),
      updateMenuItem = (\<lambda>i u ing. Inl refused),
      deleteMenuItem = (\<lambda>n. Inl refused)\<rparr>"

definition demo_transaction :: json where
  "demo_transaction =
     JObj [(''id'', JNum 7), (''customerName'', JStr ''Ada''), (''cashierName'', JStr ''Bob''),
           (''salePrice'', JNum 12)]"

definition demo_transactions_lib :: "json transactions_lib" where
  "demo_transactions_lib =
     \<lparr>getTransactions = Inr [demo_transaction],
      getTransactionDetails = (\<lambda>n. if n = Num 7 then Inr (Some demo_transaction) else Inr None),
      addTransaction = (\<lambda>arg. Inr demo_transaction)\<rparr>"

definition failing_transactions_lib :: "json transactions_lib" where
  "failing_transactions_lib =
     \<lparr>getTransactions = Inl refused,
      getTransactionDetails = (\<lambda>n. Inl refused),
      addTransaction = (\<lambda>arg. Inl refused)\<rparr>"

text \<open>
  An example for the parameter \<open>numericValue\<close>; the examples below convert JSON
  numbers and objects only, where \<open>Number_js\<close> does not consult it.
\<close>

definition demo_numericValue :: "json \<Rightarrow> number" where
  "demo_numericValue j = NaN"

definition request_with_id :: "string \<Rightarrow> Request" where
  "request_with_id s = \<lparr>searchParams = [(''id'', s)], json_result = Inl SyntaxError\<rparr>"

definition request_without_id :: Request where
  "request_without_id = \<lparr>searchParams = [], json_result = Inl SyntaxError\<rparr>"

definition request_with_body :: "json \<Rightarrow> Request" where
  "request_with_body b = \<lparr>searchParams = [], json_result = Inr b\<rparr>"

definition menu_body_ok :: json where
  "menu_body_ok =
     JObj [(''item_type'', JStr ''side''), (''name'', JStr ''Chow Mein''), (''price'', JNum 4),
           (''premium'', JBool False)]"

definition menu_body_no_price :: json where
  "menu_body_no_price =
     JObj [(''item_type'', JStr ''side''), (''name'', JStr ''Chow Mein''), (''premium'', JBool False)]"

definition menu_body_update :: json where
  "menu_body_update = JObj [(''id'', JNum 1), (''price'', JNum 6)]"

definition transaction_body_ok :: json where
  "transaction_body_ok =
     JObj [(''customerName'', JStr ''Ada''), (''cashierName'', JStr ''Bob''), (''salePrice'', JNum 12)]"


definition meal2 :: MealInProgress where
  "meal2 = \<lparr>side1 = Some item_a, side2 = None, entree1 = None, entree2 = None, entree3 = None\<rparr>"

definition transaction_body_no_cashier :: json where
  "transaction_body_no_cashier = JObj [(''customerName'', JStr ''Ada''), (''salePrice'', JNum 12)]"

section \<open>Properties of the meal builder\<close>

lemmas req_defs = required_slots_def required_side_slots_def required_entree_slots_def

lemma requirements_cases:
  "getMealRequirements sz = \<lparr>sides = 1, entrees = 1\<rparr> \<or>
   getMealRequirements sz = \<lparr>sides = 1, entrees = 2\<rparr> \<or>
   getMealRequirements sz = \<lparr>sides = 2, entrees = 3\<rparr>"
  by (simp add: getMealRequirements_def)

lemma take_two: "take 2 (a # b # xs) = [a, b]"
  by (simp add: numeral_2_eq_2)

lemma take_three: "take 3 (a # b # c # xs) = [a, b, c]"
  by (simp add: numeral_3_eq_3)

lemma length_required_slots:
  "length (required_slots sz meal) =
     sides (getMealRequirements sz) + entrees (getMealRequirements sz)"
  using requirements_cases [of sz]
  by (auto simp: req_defs take_two take_three)

lemma length_required_slots_cases:
  "length (required_slots sz meal) \<in> {2, 3, 5}"
  using requirements_cases [of sz] by (auto simp: length_required_slots)

lemma filled_count_le: "filled_count slots \<le> length slots"
  by (simp add: filled_count_def)


text \<open>
  The program's \<open>filled\<close> and \<open>total\<close> are the number of filled slots and the number
  of slots among those that \<open>getMealRequirements\<close> requires.
\<close>

lemma getProgress_eq:
  "getProgress sz meal =
     progress_value (filled_count (required_slots sz meal)) (length (required_slots sz meal))"
  using requirements_cases [of sz]
  by (auto simp: getProgress_def progress_value_def req_defs filled_count_def incr_if_def
      take_two take_three)

text \<open>
  The value of \<open>(filled / total) * 100\<close> in double arithmetic, for every total that
  occurs. It is the exact value except for one and two thirds, where the two roundings
  leave \<open>33.33333333333333\<close> and \<open>66.66666666666666\<close>.
\<close>

lemma progress_value_2:
  "progress_value 0 2 = 0" "progress_value (Suc 0) 2 = 50" "progress_value 2 2 = 100"
  by code_simp+

lemma progress_value_3:
  "progress_value 0 3 = 0"
  "progress_value (Suc 0) 3 = 2345624805922133 / 70368744177664"
  "progress_value 2 3 = 2345624805922133 / 35184372088832"
  "progress_value 3 3 = 100"
  by code_simp+

lemma progress_value_5:
  "progress_value 0 5 = 0" "progress_value (Suc 0) 5 = 20" "progress_value 2 5 = 40"
  "progress_value 3 5 = 60" "progress_value 4 5 = 80" "progress_value 5 5 = 100"
  by code_simp+

lemmas progress_table = progress_value_2 progress_value_3 progress_value_5

lemma upto_five:
  assumes "k \<le> n" and "n \<in> {2, 3, 5 :: nat}"
  shows "k = 0 \<or> k = Suc 0 \<or> k = 2 \<or> k = 3 \<or> k = 4 \<or> k = 5"
  using assms by auto

lemma progress_value_bounds:
  assumes "k \<le> n" and "n \<in> {2, 3, 5}"
  shows "0 \<le> progress_value k n \<and> progress_value k n \<le> 100"
  using upto_five [OF assms] assms by (auto simp: progress_table)


lemma progress_value_near_exact:
  assumes "k \<le> n" and "n \<in> {2, 3, 5}"
  shows "\<bar>progress_value k n - of_nat k / of_nat n * 100\<bar> < 1 / 10 ^ 14"
  using upto_five [OF assms] assms by (auto simp: progress_table)

lemma progress_value_exact:
  assumes "k \<le> n" and "n \<in> {2, 5}"
  shows "progress_value k n = of_nat k / of_nat n * 100"
proof -
  from assms have "n \<in> {2, 3, 5}" by auto
  from upto_five [OF assms(1) this] assms show ?thesis by (auto simp: progress_table)
qed

lemma getProgress_nonneg: "0 \<le> getProgress sz meal"
  using progress_value_bounds [OF filled_count_le length_required_slots_cases]
  by (simp add: getProgress_eq)

lemma getProgress_le_100: "getProgress sz meal \<le> 100"
  using progress_value_bounds [OF filled_count_le length_required_slots_cases]
  by (simp add: getProgress_eq)


text \<open>
  C1. For each of the three sizes, \<open>getMealRequirements\<close> returns the counts the
  specification enumerates: one side and one entree for a bowl, one side and two entrees
  for a plate, two sides and three entrees for a bigger plate.
\<close>

theorem getMealRequirements_enumerated:
  "getMealRequirements ''bowl'' = \<lparr>sides = 1, entrees = 1\<rparr> \<and>
   getMealRequirements ''plate'' = \<lparr>sides = 1, entrees = 2\<rparr> \<and>
   getMealRequirements ''bigger plate'' = \<lparr>sides = 2, entrees = 3\<rparr>"
  by (simp add: getMealRequirements_def)

lemma spec_required_slots:
  assumes "spec_requirements sz = Some (s, e)"
  shows "required_slots sz meal =
           take s [side1 meal, side2 meal] @ take e [entree1 meal, entree2 meal, entree3 meal] \<and>
         length (required_slots sz meal) = s + e"
  using assms
  by (auto simp: spec_requirements_def getMealRequirements_def req_defs take_two take_three
      split: if_splits)

text \<open>
  C2. For every size of the specification, with the slot counts \<open>s\<close> and \<open>e\<close> that
  the specification gives it, and every meal, whatever combination of slots is filled,
  \<open>getProgress\<close> returns the number of filled slots among the first \<open>s\<close> side slots
  and the first \<open>e\<close> entree slots, divided by \<open>s + e\<close>, times 100, as the double
  arithmetic of the program evaluates that expression. The result is within
  \<open>10\<^sup>-\<^sup>1\<^sup>4\<close> of the exact value, and is the exact value unless the size requires
  three slots.
\<close>

theorem getProgress_filled_over_total:
  assumes "spec_requirements sz = Some (s, e)"
  shows "getProgress sz meal = progress_value (spec_filled s e meal) (s + e) \<and>
         \<bar>getProgress sz meal - of_nat (spec_filled s e meal) / of_nat (s + e) * 100\<bar>
           < 1 / 10 ^ 14 \<and>
         (s + e \<noteq> 3 \<longrightarrow>
            getProgress sz meal = of_nat (spec_filled s e meal) / of_nat (s + e) * 100)"
proof -
  let ?k = "spec_filled s e meal"
  have k: "?k = filled_count (required_slots sz meal)"
    by (simp add: spec_filled_def conjunct1 [OF spec_required_slots [OF assms]])
  have n: "s + e = length (required_slots sz meal)"
    by (rule conjunct2 [OF spec_required_slots [OF assms], symmetric])
  have le: "?k \<le> s + e"
    unfolding k n by (rule filled_count_le)
  have three: "s + e \<in> {2, 3, 5}"
    unfolding n by (rule length_required_slots_cases)
  have eq: "getProgress sz meal = progress_value ?k (s + e)"
    unfolding k n by (rule getProgress_eq)
  have near: "\<bar>getProgress sz meal - of_nat ?k / of_nat (s + e) * 100\<bar> < 1 / 10 ^ 14"
    unfolding eq by (rule progress_value_near_exact [OF le three])
  have exact: "s + e \<noteq> 3 \<longrightarrow> getProgress sz meal = of_nat ?k / of_nat (s + e) * 100"
  proof
    assume "s + e \<noteq> 3"
    with three have "s + e \<in> {2, 5}" by auto
    from progress_value_exact [OF le this] show
      "getProgress sz meal = of_nat ?k / of_nat (s + e) * 100"
      unfolding eq .
  qed
  from eq near exact show ?thesis by blast
qed

theorem getProgress_filled_over_total_witness:
  "spec_requirements ''bowl'' = Some (1, 1) \<and> getProgress ''bowl'' meal1 = 100 \<and>
   getProgress ''bowl'' meal2 = 50 \<and>
   spec_requirements ''plate'' = Some (1, 2) \<and>
   getProgress ''plate'' meal1 = 2345624805922133 / 35184372088832 \<and>
   getProgress ''plate'' meal2 = 2345624805922133 / 70368744177664 \<and>
   spec_requirements ''bigger plate'' = Some (2, 3) \<and>
   getProgress ''bigger plate'' meal1 = 40 \<and> getProgress ''bigger plate'' meal2 = 20"
proof -
  have b: "spec_requirements ''bowl'' = Some (1, 1)"
    by (simp add: spec_requirements_def)
  have p: "spec_requirements ''plate'' = Some (1, 2)"
    by (simp add: spec_requirements_def)
  have g: "spec_requirements ''bigger plate'' = Some (2, 3)"
    by (simp add: spec_requirements_def)
  have f1: "spec_filled 1 1 meal1 = 2" "spec_filled 1 2 meal1 = 2" "spec_filled 2 3 meal1 = 2"
    by (simp_all add: spec_filled_def filled_count_def meal1_def take_two take_three)
  have f2: "spec_filled 1 1 meal2 = Suc 0" "spec_filled 1 2 meal2 = Suc 0"
    "spec_filled 2 3 meal2 = Suc 0"
    by (simp_all add: spec_filled_def filled_count_def meal2_def take_two take_three)
  have n: "(1 :: nat) + 1 = 2" "(1 :: nat) + 2 = 3" "(2 :: nat) + 3 = 5"
    by simp_all
  show ?thesis
    using getProgress_filled_over_total [OF b, of meal1]
      getProgress_filled_over_total [OF b, of meal2]
      getProgress_filled_over_total [OF p, of meal1]
      getProgress_filled_over_total [OF p, of meal2]
      getProgress_filled_over_total [OF g, of meal1]
      getProgress_filled_over_total [OF g, of meal2]
      b p g
    unfolding f1 f2 n
    by (simp add: progress_table)
qed





text \<open>
  A size that is none of the three literals gets the requirements of a bowl from
  \<open>getMealRequirements\<close>, while \<open>isEntreeDisabled\<close> treats it as a bigger plate.
\<close>

lemma isEntreeDisabled_other_size:
  assumes "sz \<notin> SizeEnum"
  shows "isEntreeDisabled sz meal item \<longleftrightarrow>
     all_filled [entree1 meal, entree2 meal, entree3 meal] \<and>
     \<not> occupies item [entree1 meal, entree2 meal, entree3 meal]"
  using assms
  by (auto simp: SizeEnum_def isEntreeDisabled_def all_filled_def occupies_def
      split: option.splits)

lemma sideButtons_disabled:
  "(item, disabled) \<in> set (sideButtons sz meal menuItems) \<Longrightarrow>
     itemButtonDisabled sz meal item = Some disabled"
  by (auto simp: sideButtons_def itemButtonDisabled_def)

lemma entreeButtons_disabled:
  "(item, disabled) \<in> set (entreeButtons sz meal menuItems) \<Longrightarrow>
     itemButtonDisabled sz meal item = Some disabled"
  by (auto simp: entreeButtons_def itemButtonDisabled_def)



text \<open>
  C10. For every size, also one that is none of the three literals, and every meal, also
  one with slots filled beyond what the size requires, \<open>getProgress\<close> lies between 0
  and 100: a slot the size does not require is never counted, so changing it does not
  change the result.
\<close>

theorem getProgress_bounds:
  "0 \<le> getProgress sz meal \<and> getProgress sz meal \<le> 100 \<and>
   (sides (getMealRequirements sz) < 2 \<longrightarrow>
      getProgress sz (meal\<lparr>side2 := s2\<rparr>) = getProgress sz meal) \<and>
   (entrees (getMealRequirements sz) < 2 \<longrightarrow>
      getProgress sz (meal\<lparr>entree2 := e2\<rparr>) = getProgress sz meal) \<and>
   (entrees (getMealRequirements sz) < 3 \<longrightarrow>
      getProgress sz (meal\<lparr>entree3 := e3\<rparr>) = getProgress sz meal)"
proof -
  have s2: "sides (getMealRequirements sz) < 2 \<longrightarrow>
      getProgress sz (meal\<lparr>side2 := s2\<rparr>) = getProgress sz meal"
    using requirements_cases [of sz] by (auto simp: getProgress_def)
  have e2: "entrees (getMealRequirements sz) < 2 \<longrightarrow>
      getProgress sz (meal\<lparr>entree2 := e2\<rparr>) = getProgress sz meal"
    using requirements_cases [of sz] by (auto simp: getProgress_def)
  have e3: "entrees (getMealRequirements sz) < 3 \<longrightarrow>
      getProgress sz (meal\<lparr>entree3 := e3\<rparr>) = getProgress sz meal"
    using requirements_cases [of sz] by (auto simp: getProgress_def)
  from getProgress_nonneg [of sz meal] getProgress_le_100 [of sz meal] s2 e2 e3
  show ?thesis by blast
qed

theorem getProgress_bounds_witness:
  "sides (getMealRequirements ''a la carte'') < 2 \<and>
   entrees (getMealRequirements ''a la carte'') < 2 \<and>
   entrees (getMealRequirements ''a la carte'') < 3 \<and>
   getProgress ''a la carte'' (meal1\<lparr>side2 := Some item_a\<rparr>) = getProgress ''a la carte'' meal1 \<and>
   getProgress ''a la carte'' (meal1\<lparr>entree2 := Some item_c\<rparr>) = getProgress ''a la carte'' meal1 \<and>
   getProgress ''a la carte'' (meal1\<lparr>entree3 := Some item_c\<rparr>) = getProgress ''a la carte'' meal1 \<and>
   0 \<le> getProgress ''a la carte'' meal1 \<and> getProgress ''a la carte'' meal1 \<le> 100"
  using getProgress_bounds [of "''a la carte''" meal1 "Some item_a" "Some item_c" "Some item_c"]
  by (simp add: getMealRequirements_def)

section \<open>Properties of the route handlers\<close>

lemmas handler_defs = catching_def NextResponse_json_def searchParams_get_def

lemma parseInt_Nil: "parseInt [] = NaN"
  by (simp add: parseInt_def trimStart_def)

lemma parseInt_1: "parseInt ''1'' = Num 1"
  by code_simp

lemma parseInt_7: "parseInt ''7'' = Num 7"
  by code_simp

lemma parseInt_abc: "parseInt ''abc'' = NaN"
  by code_simp

text \<open>
  \<open>parseInt\<close> reads a leading number and ignores what follows it, skips a no-break
  space (U+00A0, two bytes) like any white space, and rounds to a double.
\<close>

lemma parseInt_12abc: "parseInt ''12abc'' = Num 12"
  by code_simp

lemma parseInt_nbsp_12: "parseInt [CHR 0xC2, CHR 0xA0, CHR ''1'', CHR ''2''] = Num 12"
  by code_simp

lemma parseInt_rounds: "parseInt ''9007199254740993'' = Num 9007199254740992"
  by code_simp

lemma parseInt_negative_zero: "parseInt ''-0'' = NegZero"
  by code_simp

text \<open>
  \<open>Number\<close> throws for an object with a member named \<open>toString\<close>, also inside an
  array, and for nothing else.
\<close>

lemma Number_js_throws_iff:
  "Number_js numericValue v = Inl e \<longleftrightarrow>
     e = TypeError \<and> (\<exists>j. v = Some j \<and> toPrimitive_throws j)"
  by (auto simp: Number_js_def split: option.splits)

lemma Number_js_object_toString:
  "Number_js numericValue (Some (JObj [(''toString'', JNum 0)])) = Inl TypeError"
  by (simp add: Number_js_def)

lemma Number_js_number: "Number_js numericValue (Some (JNum q)) = Inr (Num q)"
  by (simp add: Number_js_def)

text \<open>A repeated key of a body is one property of \<open>updates\<close>, with its last value.\<close>

lemma rest_props_repeated_key:
  "rest_props (JObj [(''id'', JNum 1), (''price'', JNum 5), (''price'', JNum 6)])
     [''id'', ''ingredents''] = JObj [(''price'', JNum 6)]"
  by code_simp

text \<open>What the data layer throws, the \<open>try\<close> block throws.\<close>

lemma menu_GET_try_throws:
  "fst (menu_GET_try lib id_param) = Inl e \<longleftrightarrow>
     (case id_param of
        None \<Rightarrow> getAllMenuItems lib = Inl e
      | Some s \<Rightarrow> if s = [] then getAllMenuItems lib = Inl e
                  else getMenuItemById lib (parseInt s) = Inl e)"
  by (auto simp: menu_GET_try_def NextResponse_json_def split: option.splits sum.splits)

lemma transactions_GET_try_throws:
  "fst (transactions_GET_try lib id_param) = Inl e \<longleftrightarrow>
     (case id_param of
        None \<Rightarrow> getTransactions lib = Inl e
      | Some s \<Rightarrow> if s = [] then getTransactions lib = Inl e
                  else getTransactionDetails lib (parseInt s) = Inl e)"
  by (auto simp: transactions_GET_try_def NextResponse_json_def split: option.splits sum.splits)

lemma menu_DELETE_try_throws:
  "fst (menu_DELETE_try lib s) = Inl e \<longleftrightarrow> deleteMenuItem lib (parseInt s) = Inl e"
  by (auto simp: menu_DELETE_try_def split: sum.splits)

lemma menu_POST_try_throws_json:
  "json_result request = Inl e \<Longrightarrow> menu_POST_try lib request = (Inl e, [])"
  by (simp add: menu_POST_try_def)

lemma menu_POST_try_throws_null:
  "json_result request = Inr JNull \<Longrightarrow> menu_POST_try lib request = (Inl TypeError, [])"
  by (simp add: menu_POST_try_def)

lemma transactions_POST_try_throws_null:
  "json_result request = Inr JNull \<Longrightarrow>
     transactions_POST_try numericValue lib request = (Inl TypeError, [])"
  by (simp add: transactions_POST_try_def)

text \<open>
  A request whose id parameter is present and empty is answered like one without it:
  no lookup, the whole list.
\<close>

lemma GET_empty_id_lists:
  "searchParams_get request ''id'' = Some [] \<Longrightarrow>
     menu_GET mlib request = catching ''Error fetching menu items:''
        (\<lambda>error. NextResponse_json (ErrorBody ''Failed to fetch menu items.'' None) 500)
        (menu_GET_try mlib None) \<and>
     transactions_GET tlib request = catching ''Error in transactions GET route:''
        (\<lambda>error. NextResponse_json (ErrorBody ''Failed to fetch transactions'' (Some error)) 500)
        (transactions_GET_try tlib None)"
  by (simp add: menu_GET_def transactions_GET_def menu_GET_try_def transactions_GET_try_def)

text \<open>
  C5, as stated, fails at an id parameter that is present and empty: the data layer
  below has no record for the id, and the handler answers 200 with the list of all items.
\<close>

theorem GET_empty_id_counterexample:
  "searchParams_get (request_with_id []) ''id'' = Some [] \<and>
   getMenuItemById demo_menu_lib (parseInt []) = Inr None \<and>
   fst (menu_GET demo_menu_lib (request_with_id [])) =
     \<lparr>body = DataList [item_a, item_b], status = 200\<rparr>"
  by (simp add: menu_GET_def menu_GET_try_def handler_defs request_with_id_def
      demo_menu_lib_def parseInt_Nil)

text \<open>
  C5, amended. For every GET request to /api/menu or /api/transactions carrying a
  non-empty id query parameter: if the lookup by that id (as \<open>parseInt\<close> reads it)
  yields no record, the handler responds with status 404 and a JSON body containing an
  error field; if a record is found, it is returned as the response.
\<close>

theorem GET_by_nonempty_id:
  assumes "searchParams_get request ''id'' = Some s" and "s \<noteq> []"
  shows "(getMenuItemById mlib (parseInt s) = Inr None \<longrightarrow>
            status (fst (menu_GET mlib request)) = 404 \<and>
            has_error_field (body (fst (menu_GET mlib request)))) \<and>
         (getMenuItemById mlib (parseInt s) = Inr (Some r) \<longrightarrow>
            fst (menu_GET mlib request) = NextResponse_json (Data r) 200) \<and>
         (getTransactionDetails tlib (parseInt s) = Inr None \<longrightarrow>
            status (fst (transactions_GET tlib request)) = 404 \<and>
            has_error_field (body (fst (transactions_GET tlib request)))) \<and>
         (getTransactionDetails tlib (parseInt s) = Inr (Some t) \<longrightarrow>
            fst (transactions_GET tlib request) = NextResponse_json (Data t) 200)"
  using assms
  by (simp add: menu_GET_def menu_GET_try_def transactions_GET_def transactions_GET_try_def
      catching_def NextResponse_json_def has_error_field_def)

theorem GET_by_nonempty_id_witness:
  "searchParams_get (request_with_id ''1'') ''id'' = Some ''1'' \<and>
   getMenuItemById demo_menu_lib (parseInt ''1'') = Inr (Some item_a) \<and>
   fst (menu_GET demo_menu_lib (request_with_id ''1'')) = NextResponse_json (Data item_a) 200 \<and>
   getTransactionDetails demo_transactions_lib (parseInt ''1'') = Inr None \<and>
   status (fst (transactions_GET demo_transactions_lib (request_with_id ''1''))) = 404 \<and>
   has_error_field (body (fst (transactions_GET demo_transactions_lib (request_with_id ''1'')))) \<and>
   searchParams_get (request_with_id ''7'') ''id'' = Some ''7'' \<and>
   getMenuItemById demo_menu_lib (parseInt ''7'') = Inr None \<and>
   status (fst (menu_GET demo_menu_lib (request_with_id ''7''))) = 404 \<and>
   has_error_field (body (fst (menu_GET demo_menu_lib (request_with_id ''7'')))) \<and>
   getTransactionDetails demo_transactions_lib (parseInt ''7'') = Inr (Some demo_transaction) \<and>
   fst (transactions_GET demo_transactions_lib (request_with_id ''7'')) =
     NextResponse_json (Data demo_transaction) 200"
proof -
  have p1: "searchParams_get (request_with_id ''1'') ''id'' = Some ''1''"
    by (simp add: searchParams_get_def request_with_id_def)
  have p7: "searchParams_get (request_with_id ''7'') ''id'' = Some ''7''"
    by (simp add: searchParams_get_def request_with_id_def)
  have m1: "getMenuItemById demo_menu_lib (parseInt ''1'') = Inr (Some item_a)"
    by (simp add: demo_menu_lib_def parseInt_1)
  have m7: "getMenuItemById demo_menu_lib (parseInt ''7'') = Inr None"
    by (simp add: demo_menu_lib_def parseInt_7)
  have t1: "getTransactionDetails demo_transactions_lib (parseInt ''1'') = Inr None"
    by (simp add: demo_transactions_lib_def parseInt_1)
  have t7: "getTransactionDetails demo_transactions_lib (parseInt ''7'') = Inr (Some demo_transaction)"
    by (simp add: demo_transactions_lib_def parseInt_7)
  show ?thesis
    using GET_by_nonempty_id [OF p1, where mlib = demo_menu_lib and r = item_a
             and tlib = demo_transactions_lib]
      GET_by_nonempty_id [OF p7, where mlib = demo_menu_lib and tlib = demo_transactions_lib
             and t = demo_transaction]
      p1 p7 m1 m7 t1 t7
    by simp
qed

lemma transactions_POST_try_throws_Number:
  assumes "json_result request = Inr b" and "valid_transaction_body b"
    and "Number_js numericValue (property b ''salePrice'') = Inl e"
  shows "transactions_POST_try numericValue lib request = (Inl e, [])"
  using assms
  by (auto simp: transactions_POST_try_def valid_transaction_body_def missing_def Let_def)




text \<open>
  C7, as stated, fails at a numeric id when \<open>deleteMenuItem\<close> throws: the handler
  answers 500 with an error field, not 200 with a message field.
\<close>

theorem menu_DELETE_throwing_counterexample:
  "searchParams_get (request_with_id ''7'') ''id'' = Some ''7'' \<and> parseInt ''7'' = Num 7 \<and>
   deleteMenuItem failing_menu_lib (Num 7) = Inl refused \<and>
   status (fst (menu_DELETE failing_menu_lib (request_with_id ''7''))) = 500 \<and>
   \<not> has_message_field (body (fst (menu_DELETE failing_menu_lib (request_with_id ''7''))))"
  by (simp add: menu_DELETE_def menu_DELETE_try_def handler_defs request_with_id_def
      failing_menu_lib_def has_message_field_def parseInt_7)

text \<open>
  C7, amended. For every DELETE request to /api/menu whose id parameter is missing or is
  not read as a number by \<open>parseInt\<close>, the handler responds with status 400 and does
  not call \<open>deleteMenuItem\<close>. For an id that \<open>parseInt\<close> reads as a number, the
  handler calls \<open>deleteMenuItem\<close> once, with that number; when the call returns it
  responds with status 200 and a message field, and when the call throws with status
  500 and an error field.
\<close>

theorem menu_DELETE_status:
  "((searchParams_get request ''id'' = None \<or>
     (searchParams_get request ''id'' = Some s \<and> parseInt s = NaN)) \<longrightarrow>
      status (fst (menu_DELETE lib request)) = 400 \<and>
      calls (snd (menu_DELETE lib request)) = []) \<and>
   (searchParams_get request ''id'' = Some s \<and> parseInt s \<noteq> NaN \<and>
    deleteMenuItem lib (parseInt s) = Inr () \<longrightarrow>
      status (fst (menu_DELETE lib request)) = 200 \<and>
      has_message_field (body (fst (menu_DELETE lib request))) \<and>
      calls (snd (menu_DELETE lib request)) = [DeleteMenuItem (parseInt s)]) \<and>
   (searchParams_get request ''id'' = Some s \<and> parseInt s \<noteq> NaN \<and>
    deleteMenuItem lib (parseInt s) = Inl e \<longrightarrow>
      status (fst (menu_DELETE lib request)) = 500 \<and>
      has_error_field (body (fst (menu_DELETE lib request))) \<and>
      calls (snd (menu_DELETE lib request)) = [DeleteMenuItem (parseInt s)])"
  by (auto simp: menu_DELETE_def menu_DELETE_try_def catching_def NextResponse_json_def
      has_message_field_def has_error_field_def calls_def parseInt_Nil)

theorem menu_DELETE_status_witness:
  "searchParams_get (request_with_id ''abc'') ''id'' = Some ''abc'' \<and> parseInt ''abc'' = NaN \<and>
   status (fst (menu_DELETE demo_menu_lib (request_with_id ''abc''))) = 400 \<and>
   calls (snd (menu_DELETE demo_menu_lib (request_with_id ''abc''))) = [] \<and>
   searchParams_get request_without_id ''id'' = None \<and>
   status (fst (menu_DELETE demo_menu_lib request_without_id)) = 400 \<and>
   calls (snd (menu_DELETE demo_menu_lib request_without_id)) = [] \<and>
   searchParams_get (request_with_id ''7'') ''id'' = Some ''7'' \<and> parseInt ''7'' \<noteq> NaN \<and>
   deleteMenuItem demo_menu_lib (parseInt ''7'') = Inr () \<and>
   status (fst (menu_DELETE demo_menu_lib (request_with_id ''7''))) = 200 \<and>
   has_message_field (body (fst (menu_DELETE demo_menu_lib (request_with_id ''7'')))) \<and>
   calls (snd (menu_DELETE demo_menu_lib (request_with_id ''7''))) = [DeleteMenuItem (Num 7)] \<and>
   deleteMenuItem failing_menu_lib (parseInt ''7'') = Inl refused \<and>
   status (fst (menu_DELETE failing_menu_lib (request_with_id ''7''))) = 500 \<and>
   has_error_field (body (fst (menu_DELETE failing_menu_lib (request_with_id ''7'')))) \<and>
   calls (snd (menu_DELETE failing_menu_lib (request_with_id ''7''))) = [DeleteMenuItem (Num 7)]"
proof -
  have a: "searchParams_get (request_with_id ''abc'') ''id'' = Some ''abc''"
    by (simp add: searchParams_get_def request_with_id_def)
  have n: "searchParams_get request_without_id ''id'' = None"
    by (simp add: searchParams_get_def request_without_id_def)
  have p7: "searchParams_get (request_with_id ''7'') ''id'' = Some ''7''"
    by (simp add: searchParams_get_def request_with_id_def)
  have d: "deleteMenuItem demo_menu_lib (parseInt ''7'') = Inr ()"
    by (simp add: demo_menu_lib_def)
  have f: "deleteMenuItem failing_menu_lib (parseInt ''7'') = Inl refused"
    by (simp add: failing_menu_lib_def)
  show ?thesis
    using menu_DELETE_status [where request = "request_with_id ''abc''" and s = "''abc''"
            and lib = demo_menu_lib and e = refused]
      menu_DELETE_status [where request = request_without_id and s = "''7''"
            and lib = demo_menu_lib and e = refused]
      menu_DELETE_status [where request = "request_with_id ''7''" and s = "''7''"
            and lib = demo_menu_lib and e = refused]
      menu_DELETE_status [where request = "request_with_id ''7''" and s = "''7''"
            and lib = failing_menu_lib and e = refused]
      a n p7 d f parseInt_abc parseInt_7
    by simp
qed

text \<open>
  C8, as stated, fails at the menu handlers: the data layer below throws, and the
  handler's response has status 500 and an error field but does not embed the error.
\<close>

theorem menu_GET_omits_error_counterexample:
  "getAllMenuItems failing_menu_lib = Inl refused \<and>
   fst (menu_GET failing_menu_lib request_without_id) =
     \<lparr>body = ErrorBody ''Failed to fetch menu items.'' None, status = 500\<rparr> \<and>
   \<not> embeds refused (body (fst (menu_GET failing_menu_lib request_without_id)))"
  by (simp add: menu_GET_def menu_GET_try_def handler_defs request_without_id_def
      failing_menu_lib_def embeds_def)

text \<open>
  C8, amended. For every request handler, when its \<open>try\<close> block throws, the handler
  catches the exception and responds with status 500 and a JSON body with an error
  field. The handlers of /api/transactions embed the caught error object in that body;
  the handlers of /api/menu do not.
\<close>

theorem handlers_respond_500:
  "(fst (menu_GET_try mlib (searchParams_get request ''id'')) = Inl e \<longrightarrow>
      responds_500 (fst (menu_GET mlib request)) \<and>
      \<not> embeds e (body (fst (menu_GET mlib request)))) \<and>
   (fst (menu_POST_try mlib request) = Inl e \<longrightarrow>
      responds_500 (fst (menu_POST mlib request)) \<and>
      \<not> embeds e (body (fst (menu_POST mlib request)))) \<and>
   (fst (menu_PUT_try mlib request) = Inl e \<longrightarrow>
      responds_500 (fst (menu_PUT mlib request)) \<and>
      \<not> embeds e (body (fst (menu_PUT mlib request)))) \<and>
   (searchParams_get request ''id'' = Some s \<and> s \<noteq> [] \<and> parseInt s \<noteq> NaN \<and>
    fst (menu_DELETE_try mlib s) = Inl e \<longrightarrow>
      responds_500 (fst (menu_DELETE mlib request)) \<and>
      \<not> embeds e (body (fst (menu_DELETE mlib request)))) \<and>
   (fst (transactions_GET_try tlib (searchParams_get request ''id'')) = Inl e \<longrightarrow>
      responds_500 (fst (transactions_GET tlib request)) \<and>
      embeds e (body (fst (transactions_GET tlib request)))) \<and>
   (fst (transactions_POST_try numericValue tlib request) = Inl e \<longrightarrow>
      responds_500 (fst (transactions_POST numericValue tlib request)) \<and>
      embeds e (body (fst (transactions_POST numericValue tlib request))))"
  by (auto simp: menu_GET_def menu_POST_def menu_PUT_def menu_DELETE_def
      transactions_GET_def transactions_POST_def catching_def NextResponse_json_def
      responds_500_def has_error_field_def embeds_def split: prod.splits sum.splits)

theorem handlers_respond_500_witness:
  "fst (menu_GET_try failing_menu_lib (searchParams_get request_without_id ''id'')) = Inl refused \<and>
   responds_500 (fst (menu_GET failing_menu_lib request_without_id)) \<and>
   \<not> embeds refused (body (fst (menu_GET failing_menu_lib request_without_id))) \<and>
   fst (transactions_GET_try failing_transactions_lib
          (searchParams_get request_without_id ''id'')) = Inl refused \<and>
   responds_500 (fst (transactions_GET failing_transactions_lib request_without_id)) \<and>
   embeds refused (body (fst (transactions_GET failing_transactions_lib request_without_id))) \<and>
   fst (menu_POST_try failing_menu_lib (request_with_body menu_body_ok)) = Inl refused \<and>
   responds_500 (fst (menu_POST failing_menu_lib (request_with_body menu_body_ok))) \<and>
   fst (menu_PUT_try failing_menu_lib (request_with_body menu_body_update)) = Inl refused \<and>
   responds_500 (fst (menu_PUT failing_menu_lib (request_with_body menu_body_update))) \<and>
   searchParams_get (request_with_id ''7'') ''id'' = Some ''7'' \<and> parseInt ''7'' \<noteq> NaN \<and>
   fst (menu_DELETE_try failing_menu_lib ''7'') = Inl refused \<and>
   responds_500 (fst (menu_DELETE failing_menu_lib (request_with_id ''7''))) \<and>
   fst (transactions_POST_try demo_numericValue failing_transactions_lib
          (request_with_body transaction_body_ok)) = Inl refused \<and>
   responds_500 (fst (transactions_POST demo_numericValue failing_transactions_lib
                        (request_with_body transaction_body_ok))) \<and>
   embeds refused (body (fst (transactions_POST demo_numericValue failing_transactions_lib
                                (request_with_body transaction_body_ok))))"
proof -
  have g: "fst (menu_GET_try failing_menu_lib (searchParams_get request_without_id ''id'')) = Inl refused"
    by (simp add: menu_GET_try_def searchParams_get_def request_without_id_def failing_menu_lib_def)
  have tg: "fst (transactions_GET_try failing_transactions_lib
                   (searchParams_get request_without_id ''id'')) = Inl refused"
    by (simp add: transactions_GET_try_def searchParams_get_def request_without_id_def
        failing_transactions_lib_def)
  have po: "fst (menu_POST_try failing_menu_lib (request_with_body menu_body_ok)) = Inl refused"
    by (simp add: menu_POST_try_def request_with_body_def menu_body_ok_def failing_menu_lib_def
        property_def truthy_def default_to_def)
  have pu: "fst (menu_PUT_try failing_menu_lib (request_with_body menu_body_update)) = Inl refused"
    by (simp add: menu_PUT_try_def request_with_body_def menu_body_update_def failing_menu_lib_def
        property_def truthy_def rest_props_def Let_def)
  have p7: "searchParams_get (request_with_id ''7'') ''id'' = Some ''7''"
    by (simp add: searchParams_get_def request_with_id_def)
  have d: "fst (menu_DELETE_try failing_menu_lib ''7'') = Inl refused"
    by (simp add: menu_DELETE_try_def failing_menu_lib_def)
  have tp: "fst (transactions_POST_try demo_numericValue failing_transactions_lib
                   (request_with_body transaction_body_ok)) = Inl refused"
    by (simp add: transactions_POST_try_def request_with_body_def transaction_body_ok_def
        failing_transactions_lib_def property_def truthy_def default_to_def Number_js_def)
  show ?thesis
    using handlers_respond_500 [where request = request_without_id and e = refused
            and s = "''7''" and mlib = failing_menu_lib and tlib = failing_transactions_lib
            and numericValue = demo_numericValue]
      handlers_respond_500 [where request = "request_with_body menu_body_ok" and e = refused
            and s = "''7''" and mlib = failing_menu_lib and tlib = failing_transactions_lib
            and numericValue = demo_numericValue]
      handlers_respond_500 [where request = "request_with_body menu_body_update" and e = refused
            and s = "''7''" and mlib = failing_menu_lib and tlib = failing_transactions_lib
            and numericValue = demo_numericValue]
      handlers_respond_500 [where request = "request_with_id ''7''" and e = refused
            and s = "''7''" and mlib = failing_menu_lib and tlib = failing_transactions_lib
            and numericValue = demo_numericValue]
      handlers_respond_500 [where request = "request_with_body transaction_body_ok" and e = refused
            and s = "''7''" and mlib = failing_menu_lib and tlib = failing_transactions_lib
            and numericValue = demo_numericValue]
      g tg po pu p7 d tp parseInt_7
    by simp
qed

lemma POST_null_body_no_call:
  assumes "json_result request = Inr JNull \<or> json_result request = Inl e"
  shows "calls (snd (transactions_POST numericValue tlib request)) = [] \<and>
         calls (snd (menu_POST mlib request)) = []"
  using assms
  by (auto simp: transactions_POST_def transactions_POST_try_def menu_POST_def menu_POST_try_def
      catching_def calls_def)

text \<open>
  C9, as stated, fails at the body \<open>null\<close>: every required field is missing from it,
  and both handlers read its properties before they validate, which throws; the
  answer is 500.
\<close>

theorem POST_null_body_counterexample:
  "json_result (request_with_body JNull) = Inr JNull \<and>
   missing JNull ''customerName'' \<and> missing JNull ''item_type'' \<and>
   status (fst (transactions_POST demo_numericValue demo_transactions_lib
                  (request_with_body JNull))) = 500 \<and>
   status (fst (menu_POST demo_menu_lib (request_with_body JNull))) = 500"
  by (simp add: transactions_POST_def transactions_POST_try_def menu_POST_def menu_POST_try_def
      catching_def NextResponse_json_def request_with_body_def missing_def property_def)

text \<open>
  C9, amended. For every POST request whose body is JSON, and not \<open>null\<close>, in which
  customerName, cashierName or salePrice is missing, the transactions handler responds
  with status 400 and does not call the data layer; and so does the menu handler for a
  body in which item_type, name, price or premium is missing.
\<close>

theorem POST_missing_field_400:
  "(json_result request = Inr b \<and> b \<noteq> JNull \<and>
    (missing b ''customerName'' \<or> missing b ''cashierName'' \<or> missing b ''salePrice'') \<longrightarrow>
      status (fst (transactions_POST numericValue tlib request)) = 400 \<and>
      calls (snd (transactions_POST numericValue tlib request)) = []) \<and>
   (json_result request' = Inr b' \<and> b' \<noteq> JNull \<and>
    (missing b' ''item_type'' \<or> missing b' ''name'' \<or> missing b' ''price'' \<or>
     missing b' ''premium'') \<longrightarrow>
      status (fst (menu_POST mlib request')) = 400 \<and>
      calls (snd (menu_POST mlib request')) = [])"
  by (auto simp: transactions_POST_def transactions_POST_try_def menu_POST_def menu_POST_try_def
      catching_def NextResponse_json_def calls_def missing_def truthy_def Let_def)

theorem POST_missing_field_400_witness:
  "json_result (request_with_body transaction_body_no_cashier) = Inr transaction_body_no_cashier \<and>
   transaction_body_no_cashier \<noteq> JNull \<and> missing transaction_body_no_cashier ''cashierName'' \<and>
   status (fst (transactions_POST demo_numericValue demo_transactions_lib
                  (request_with_body transaction_body_no_cashier))) = 400 \<and>
   calls (snd (transactions_POST demo_numericValue demo_transactions_lib
                  (request_with_body transaction_body_no_cashier))) = [] \<and>
   json_result (request_with_body menu_body_no_price) = Inr menu_body_no_price \<and>
   menu_body_no_price \<noteq> JNull \<and> missing menu_body_no_price ''price'' \<and>
   status (fst (menu_POST demo_menu_lib (request_with_body menu_body_no_price))) = 400 \<and>
   calls (snd (menu_POST demo_menu_lib (request_with_body menu_body_no_price))) = []"
proof -
  have t: "json_result (request_with_body transaction_body_no_cashier) = Inr transaction_body_no_cashier"
    by (simp add: request_with_body_def)
  have tm: "transaction_body_no_cashier \<noteq> JNull \<and> missing transaction_body_no_cashier ''cashierName''"
    by (simp add: transaction_body_no_cashier_def missing_def property_def)
  have m: "json_result (request_with_body menu_body_no_price) = Inr menu_body_no_price"
    by (simp add: request_with_body_def)
  have mm: "menu_body_no_price \<noteq> JNull \<and> missing menu_body_no_price ''price''"
    by (simp add: menu_body_no_price_def missing_def property_def)
  show ?thesis
    using POST_missing_field_400 [where request = "request_with_body transaction_body_no_cashier"
                and b = transaction_body_no_cashier and numericValue = demo_numericValue
                and tlib = demo_transactions_lib
                and request' = "request_with_body menu_body_no_price"
                and b' = menu_body_no_price and mlib = demo_menu_lib]
      t tm m mm
    by simp
qed

end
